theory Spec2Isabelle
  imports Main "HOL-Library.List_Lexorder" "HOL-Library.Char_ord"
begin

section \<open>Data model\<close>

text \<open>
  The placement engine of \<^verbatim>\<open>app.py\<close> works on JSON dictionaries. Each kind of
  dictionary is a record here; a key the code reads with \<^verbatim>\<open>d["k"]\<close> is a
  mandatory field, a key it reads with \<^verbatim>\<open>d.get("k", default)\<close> is an optional
  one. Numbers are Python integers (\<^typ>\<open>int\<close>), and the literal \<^verbatim>\<open>0.0\<close> of the
  packers is the integer 0; identifiers and zone labels are strings, ordered
  lexicographically as Python orders them.

  Record fields are global constants, so the keys that occur in several kinds of
  dictionary carry a prefix: \<open>cwidth\<close>, \<open>cheight\<close>, \<open>cdepth\<close> for a container,
  \<open>p_containerId\<close>, \<open>p_itemId\<close> for a placement, \<open>co_width\<close>, \<open>co_depth\<close>,
  \<open>co_height\<close> for a coordinate triple, \<open>r_x\<close>, \<open>r_y\<close>, \<open>r_w\<close>, \<open>r_h\<close> for a
  rectangle and \<open>o_w\<close>, \<open>o_h\<close>, \<open>o_d\<close>, \<open>o_area\<close> for an orientation.
\<close>

record item =
  itemId :: string
  width :: int
  height :: int
  depth :: int
  preferredZone :: string
  priority :: "int option"

record container =
  containerId :: string
  zone :: string
  cwidth :: int
  cheight :: int
  cdepth :: int

record rect =
  r_x :: int
  r_y :: int
  r_w :: int
  r_h :: int

record orientation =
  o_w :: int
  o_h :: int
  o_d :: int
  o_area :: int

section \<open>Placement algorithm helper functions\<close>

subsection \<open>\<^verbatim>\<open>get_best_orientation\<close>\<close>

text \<open>
  Python's \<^verbatim>\<open>min(xs, key=f)\<close> keeps the first element whose key is minimal: the
  running best is replaced only by a strictly smaller key.
\<close>

fun min_by_key :: "('a \<Rightarrow> int) \<Rightarrow> 'a \<Rightarrow> 'a list \<Rightarrow> 'a" where
  "min_by_key key best [] = best"
| "min_by_key key best (x # xs) =
     min_by_key key (if key x < key best then x else best) xs"

definition get_best_orientation :: "item \<Rightarrow> int \<Rightarrow> (int \<times> int \<times> int) option" where
  "get_best_orientation it container_depth =
     (let w = width it; h = height it; d = depth it;
          orientations =
            [\<lparr>o_w = w, o_h = h, o_d = d, o_area = w * h\<rparr>,
             \<lparr>o_w = w, o_h = d, o_d = h, o_area = w * d\<rparr>,
             \<lparr>o_w = h, o_h = d, o_d = w, o_area = h * d\<rparr>];
          fitting = filter (\<lambda>c. o_d c \<le> container_depth) orientations
      in case fitting of
           [] \<Rightarrow> None
         | f # fs \<Rightarrow>
             (let best = min_by_key o_area f fs
              in Some (o_w best, o_h best, o_d best)))"

subsection \<open>\<^verbatim>\<open>split_free_rectangle\<close>\<close>

definition split_free_rectangle :: "rect \<Rightarrow> rect \<Rightarrow> rect list" where
  "split_free_rectangle fr pr =
     (let ix = max (r_x fr) (r_x pr);
          iy = max (r_y fr) (r_y pr);
          i_right = min (r_x fr + r_w fr) (r_x pr + r_w pr);
          i_top = min (r_y fr + r_h fr) (r_y pr + r_h pr)
      in if i_right \<le> ix \<or> i_top \<le> iy then [fr]
         else
           (let rects =
                  (if ix > r_x fr
                   then [\<lparr>r_x = r_x fr, r_y = r_y fr, r_w = ix - r_x fr, r_h = r_h fr\<rparr>]
                   else [])
                @ (if i_right < r_x fr + r_w fr
                   then [\<lparr>r_x = i_right, r_y = r_y fr,
                          r_w = (r_x fr + r_w fr) - i_right, r_h = r_h fr\<rparr>]
                   else [])
                @ (if i_top < r_y fr + r_h fr
                   then [\<lparr>r_x = r_x fr, r_y = i_top, r_w = r_w fr,
                          r_h = (r_y fr + r_h fr) - i_top\<rparr>]
                   else [])
                @ (if iy > r_y fr
                   then [\<lparr>r_x = r_x fr, r_y = r_y fr, r_w = r_w fr, r_h = iy - r_y fr\<rparr>]
                   else [])
            in filter (\<lambda>r. r_w r > 0 \<and> r_h r > 0) rects))"

subsection \<open>\<^verbatim>\<open>prune_free_rectangles\<close>\<close>

text \<open>
  The inner loop over \<^verbatim>\<open>enumerate(free_rects)\<close>: it stops with \<open>True\<close> at the
  first rectangle at another index that contains \<open>r1\<close>.
\<close>

fun contained_loop :: "rect \<Rightarrow> nat \<Rightarrow> (nat \<times> rect) list \<Rightarrow> bool" where
  "contained_loop r1 i [] = False"
| "contained_loop r1 i ((j, r2) # rest) =
     (if i \<noteq> j \<and>
         (r_x r1 \<ge> r_x r2 \<and> r_y r1 \<ge> r_y r2 \<and>
          r_x r1 + r_w r1 \<le> r_x r2 + r_w r2 \<and>
          r_y r1 + r_h r1 \<le> r_y r2 + r_h r2)
      then True
      else contained_loop r1 i rest)"

fun prune_loop :: "(nat \<times> rect) list \<Rightarrow> (nat \<times> rect) list \<Rightarrow> rect list \<Rightarrow> rect list" where
  "prune_loop [] free_rects pruned = pruned"
| "prune_loop ((i, r1) # rest) free_rects pruned =
     prune_loop rest free_rects
       (if \<not> contained_loop r1 i free_rects then pruned @ [r1] else pruned)"

definition prune_free_rectangles :: "rect list \<Rightarrow> rect list" where
  "prune_free_rectangles free_rects =
     prune_loop (enumerate 0 free_rects) (enumerate 0 free_rects) []"

subsection \<open>\<^verbatim>\<open>find_position_for_rect\<close>\<close>

text \<open>
  The function returns the tuple \<^verbatim>\<open>(best_rect, best_x, best_y, best_score)\<close>. The
  four variables start as \<^verbatim>\<open>None\<close> and are only ever assigned together, so the
  tuple is \<open>None\<close> when all four are \<^verbatim>\<open>None\<close> and \<open>Some\<close> of the four values
  otherwise. The test \<^verbatim>\<open>best_score is None or leftover < best_score\<close> is the
  \<open>case\<close> on the running best.
\<close>

type_synonym best_fit = "(rect \<times> int \<times> int \<times> int) option"

fun find_position_loop :: "rect list \<Rightarrow> int \<Rightarrow> int \<Rightarrow> best_fit \<Rightarrow> best_fit" where
  "find_position_loop [] rw rh best = best"
| "find_position_loop (fr # frs) rw rh best =
     (if r_w fr \<ge> rw \<and> r_h fr \<ge> rh then
        (let leftover = r_w fr * r_h fr - rw * rh
         in if (case best of None \<Rightarrow> True
                | Some (best_rect, best_x, best_y, best_score) \<Rightarrow> leftover < best_score)
            then find_position_loop frs rw rh (Some (fr, r_x fr, r_y fr, leftover))
            else find_position_loop frs rw rh best)
      else find_position_loop frs rw rh best)"

definition find_position_for_rect :: "rect list \<Rightarrow> int \<Rightarrow> int \<Rightarrow> best_fit" where
  "find_position_for_rect free_rects rw rh = find_position_loop free_rects rw rh None"

section \<open>Placements and the log\<close>

record coordinates =
  co_width :: int
  co_depth :: "int option"
  co_height :: int

record position =
  startCoordinates :: coordinates
  endCoordinates :: coordinates

record placement =
  p_containerId :: string
  p_itemId :: string
  position :: position
  name :: "string option"
  itemName :: "string option"

text \<open>
  \<^verbatim>\<open>record_log\<close> appends an entry, stamped with the current time, to the global list
  \<^verbatim>\<open>LOGS\<close> and to the file \<^verbatim>\<open>logs.json\<close>. Both, and the clock, are the world the
  allocator runs in: \<open>logs_json\<close> is \<open>None\<close> when the file is missing or unreadable
  (\<^verbatim>\<open>load_json\<close> then takes the default), \<open>utcnow\<close> gives the successive readings of
  the clock and \<open>reads\<close> counts them. The nested \<^verbatim>\<open>details\<close> dictionary of an entry
  is flattened into the entry. Writing the file is taken to succeed.
\<close>

record log_entry =
  timestamp :: string
  userId :: string
  actionType :: string
  log_itemId :: string
  log_fromContainer :: string
  log_toContainer :: string
  log_reason :: string

record world =
  LOGS :: "log_entry list"
  logs_json :: "log_entry list option"
  utcnow :: "nat \<Rightarrow> string"
  reads :: nat

definition append_log_to_file :: "world \<Rightarrow> log_entry \<Rightarrow> world" where
  "append_log_to_file wld entry =
     (let logs_data = (case logs_json wld of None \<Rightarrow> [] | Some l \<Rightarrow> l)
      in wld\<lparr>logs_json := Some (logs_data @ [entry])\<rparr>)"

definition record_log ::
  "world \<Rightarrow> string \<Rightarrow> string \<Rightarrow> string \<Rightarrow> string \<Rightarrow> string \<Rightarrow> string \<Rightarrow> world" where
  "record_log wld user_id action_type item_id from_container to_container reason =
     (let entry = \<lparr>timestamp = utcnow wld (reads wld), userId = user_id,
                    actionType = action_type, log_itemId = item_id,
                    log_fromContainer = from_container, log_toContainer = to_container,
                    log_reason = reason\<rparr>;
          wld1 = wld\<lparr>reads := reads wld + 1\<rparr>;
          wld2 = wld1\<lparr>LOGS := LOGS wld1 @ [entry]\<rparr>
      in append_log_to_file wld2 entry)"

section \<open>Packing one container and allocating a batch\<close>

text \<open>
  Both packers build the placement document of an item the same way and then replace every
  free rectangle by its split against the placed rectangle and prune the result
  (\<^verbatim>\<open>pack_open_face_in_container\<close>, lines 133-146, and \<^verbatim>\<open>place_items_optimally\<close>,
  lines 180-194).
\<close>

definition make_placement :: "string \<Rightarrow> string \<Rightarrow> int \<Rightarrow> int \<Rightarrow> int \<Rightarrow> int \<Rightarrow> int \<Rightarrow> placement" where
  "make_placement cid iid px py rw rh rd =
     \<lparr>p_containerId = cid, p_itemId = iid,
      position =
        \<lparr>startCoordinates = \<lparr>co_width = px, co_depth = Some 0, co_height = py\<rparr>,
         endCoordinates = \<lparr>co_width = px + rw, co_depth = Some rd, co_height = py + rh\<rparr>\<rparr>,
      name = None, itemName = None\<rparr>"

definition update_free_rects :: "rect list \<Rightarrow> rect \<Rightarrow> rect list" where
  "update_free_rects free_rects placed_rect =
     (let new_free = concat (map (\<lambda>r. split_free_rectangle r placed_rect) free_rects)
      in prune_free_rectangles new_free)"

subsection \<open>\<^verbatim>\<open>pack_open_face_in_container\<close>\<close>

text \<open>The loop over the items; its state is \<^verbatim>\<open>(free_rects, placements, unplaced)\<close>.\<close>

fun pack_loop ::
  "container \<Rightarrow> item list \<Rightarrow> rect list \<Rightarrow> placement list \<Rightarrow> item list
     \<Rightarrow> rect list \<times> placement list \<times> item list" where
  "pack_loop cont [] free_rects pls unplaced = (free_rects, pls, unplaced)"
| "pack_loop cont (it # its) free_rects pls unplaced =
     (case get_best_orientation it (cdepth cont) of
        None \<Rightarrow> pack_loop cont its free_rects pls (unplaced @ [it])
      | Some (rw, rh, rd) \<Rightarrow>
          (case find_position_for_rect free_rects rw rh of
             None \<Rightarrow> pack_loop cont its free_rects pls (unplaced @ [it])
           | Some (fr, px, py, score) \<Rightarrow>
               pack_loop cont its
                 (update_free_rects free_rects \<lparr>r_x = px, r_y = py, r_w = rw, r_h = rh\<rparr>)
                 (pls @ [make_placement (containerId cont) (itemId it) px py rw rh rd])
                 unplaced))"

definition pack_open_face_in_container :: "container \<Rightarrow> item list \<Rightarrow> placement list \<times> item list" where
  "pack_open_face_in_container cont its =
     (let (free_rects, pls, unplaced) =
            pack_loop cont its
              [\<lparr>r_x = 0, r_y = 0, r_w = cwidth cont, r_h = cheight cont\<rparr>] [] []
      in (pls, unplaced))"

subsection \<open>\<^verbatim>\<open>place_items_optimally\<close>\<close>

text \<open>
  A Python dictionary keeps its keys in insertion order; it is an association list with
  unique keys here. \<open>dict_set\<close> is the assignment \<^verbatim>\<open>d[k] = v\<close> (a key already present
  keeps its place and takes the new value), and \<open>setdefault_append\<close> is
  \<^verbatim>\<open>d.setdefault(k, []).append(v)\<close>.
\<close>

fun dict_set :: "('k \<times> 'v) list \<Rightarrow> 'k \<Rightarrow> 'v \<Rightarrow> ('k \<times> 'v) list" where
  "dict_set [] k v = [(k, v)]"
| "dict_set ((k', v') # rest) k v =
     (if k' = k then (k', v) # rest else (k', v') # dict_set rest k v)"

fun setdefault_append :: "('k \<times> 'v list) list \<Rightarrow> 'k \<Rightarrow> 'v \<Rightarrow> ('k \<times> 'v list) list" where
  "setdefault_append [] k v = [(k, [v])]"
| "setdefault_append ((k', vs) # rest) k v =
     (if k' = k then (k', vs @ [v]) # rest else (k', vs) # setdefault_append rest k v)"

record alloc_data =
  d_items :: "item list option"
  d_containers :: "container list option"

record face_data =
  fd_container :: container
  fd_free_rects :: "rect list"
  fd_placements :: "placement list"

text \<open>
  \<^verbatim>\<open>list.sort(key=k, reverse=True)\<close> is a stable sort by descending key: elements with
  equal keys keep their order. That is the stable ascending sort on the negated key.
\<close>

definition sort_by_priority :: "item list \<Rightarrow> item list" where
  "sort_by_priority items_list =
     sort_key (\<lambda>x. - (case priority x of None \<Rightarrow> 0 | Some p \<Rightarrow> p)) items_list"

definition zone_to_items_of :: "item list \<Rightarrow> (string \<times> item list) list" where
  "zone_to_items_of active_items =
     foldl (\<lambda>zone_to_items it. setdefault_append zone_to_items (preferredZone it) it)
       [] active_items"

definition container_face_data_of :: "container list \<Rightarrow> (string \<times> face_data) list" where
  "container_face_data_of c_list =
     foldl (\<lambda>d c. dict_set d (containerId c)
               \<lparr>fd_container = c,
                fd_free_rects = [\<lparr>r_x = 0, r_y = 0, r_w = cwidth c, r_h = cheight c\<rparr>],
                fd_placements = []\<rparr>)
       [] c_list"

text \<open>
  The loop over \<^verbatim>\<open>container_face_data.items()\<close> for one item (lines 172-196). It
  returns the dictionary, with the entry of the accepting container updated in place,
  the flag \<^verbatim>\<open>placed\<close> and the world after the log call. The \<^verbatim>\<open>break\<close> leaves the
  entries after the accepting container untouched.
\<close>

fun try_containers ::
  "world \<Rightarrow> item \<Rightarrow> (string \<times> face_data) list \<Rightarrow> (string \<times> face_data) list \<times> bool \<times> world" where
  "try_containers wld it [] = ([], False, wld)"
| "try_containers wld it ((cid, d_item) # rest) =
     (let cont = fd_container d_item
      in case get_best_orientation it (cdepth cont) of
           None \<Rightarrow>
             (let (rest', placed, wld') = try_containers wld it rest
              in ((cid, d_item) # rest', placed, wld'))
         | Some (rw, rh, rd) \<Rightarrow>
             (case find_position_for_rect (fd_free_rects d_item) rw rh of
                None \<Rightarrow>
                  (let (rest', placed, wld') = try_containers wld it rest
                   in ((cid, d_item) # rest', placed, wld'))
              | Some (fr, px, py, score) \<Rightarrow>
                  (let pdoc = make_placement cid (itemId it) px py rw rh rd;
                       wld' = record_log wld ''system'' ''NEW_PLACEMENT'' (itemId it)
                                ''NONE'' cid ''Placed on open face.'';
                       placed_rect = \<lparr>r_x = px, r_y = py, r_w = rw, r_h = rh\<rparr>
                   in ((cid, d_item\<lparr>fd_placements := fd_placements d_item @ [pdoc],
                                   fd_free_rects :=
                                     update_free_rects (fd_free_rects d_item) placed_rect\<rparr>)
                        # rest,
                       True, wld'))))"

text \<open>The loop over the sorted items of one zone (lines 169-198).\<close>

fun place_zone_items ::
  "world \<Rightarrow> item list \<Rightarrow> (string \<times> face_data) list \<Rightarrow> item list
     \<Rightarrow> (string \<times> face_data) list \<times> item list \<times> world" where
  "place_zone_items wld [] cfd remaining = (cfd, remaining, wld)"
| "place_zone_items wld (it # its) cfd remaining =
     (let (cfd', placed, wld') = try_containers wld it cfd
      in place_zone_items wld' its cfd' (if \<not> placed then remaining @ [it] else remaining))"

text \<open>
  The loop over \<^verbatim>\<open>zone_to_items.items()\<close> (lines 157-201); its state is
  \<^verbatim>\<open>(all_open_face_placements, unplaced_global)\<close> and the world.
\<close>

fun zone_loop ::
  "world \<Rightarrow> alloc_data \<Rightarrow> (string \<times> item list) list \<Rightarrow> placement list \<Rightarrow> item list
     \<Rightarrow> placement list \<times> item list \<times> world" where
  "zone_loop wld data [] all_open_face_placements unplaced_global =
     (all_open_face_placements, unplaced_global, wld)"
| "zone_loop wld data ((z, items_list) # rest) all_open_face_placements unplaced_global =
     (let sorted_items = sort_by_priority items_list;
          c_list = filter (\<lambda>c. zone c = z)
                     (case d_containers data of None \<Rightarrow> [] | Some cs \<Rightarrow> cs);
          c_sorted = sort_key containerId c_list;
          container_face_data = container_face_data_of c_sorted;
          (cfd, remaining, wld') = place_zone_items wld sorted_items container_face_data []
      in zone_loop wld' data rest
           (all_open_face_placements @ concat (map (\<lambda>(cid, d_item). fd_placements d_item) cfd))
           (unplaced_global @ remaining))"

text \<open>
  \<open>allocate\<close> is the body of \<^verbatim>\<open>place_items_optimally\<close> up to line 201: it gives the
  placements, the local list \<^verbatim>\<open>unplaced_global\<close> and the world. The function itself
  returns the placements with the empty list \<^verbatim>\<open>rearrangements\<close>.
\<close>

definition allocate :: "world \<Rightarrow> alloc_data \<Rightarrow> placement list \<times> item list \<times> world" where
  "allocate wld data =
     (let active_items = (case d_items data of None \<Rightarrow> [] | Some its \<Rightarrow> its);
          zone_to_items = zone_to_items_of active_items
      in zone_loop wld data zone_to_items [] [])"

record rearrangement =
  s_step :: int
  s_action :: string
  s_itemId :: string
  fromContainer :: string
  fromPosition :: position
  toContainer :: string
  toPosition :: position

definition place_items_optimally ::
  "world \<Rightarrow> alloc_data \<Rightarrow> (placement list \<times> rearrangement list) \<times> world" where
  "place_items_optimally wld data =
     (let (all_open_face_placements, unplaced_global, wld') = allocate wld data;
          rearrangements = []
      in ((all_open_face_placements, rearrangements), wld'))"

section \<open>\<^verbatim>\<open>generate_rearrangements\<close>\<close>

definition zero_position :: position where
  "zero_position =
     \<lparr>startCoordinates = \<lparr>co_width = 0, co_depth = Some 0, co_height = 0\<rparr>,
      endCoordinates = \<lparr>co_width = 0, co_depth = Some 0, co_height = 0\<rparr>\<rparr>"

definition placement_dict :: "placement list \<Rightarrow> (string \<times> placement) list" where
  "placement_dict pls = foldl (\<lambda>d p. dict_set d (p_itemId p) p) [] pls"

text \<open>
  The first loop, over \<^verbatim>\<open>new_dict.items()\<close>, and the second, over
  \<^verbatim>\<open>old_dict.items()\<close>; the state of both is \<^verbatim>\<open>(rearrangements, step)\<close>.
\<close>

fun new_items_loop ::
  "(string \<times> placement) list \<Rightarrow> (string \<times> placement) list \<Rightarrow> rearrangement list \<Rightarrow> int
     \<Rightarrow> rearrangement list \<times> int" where
  "new_items_loop [] old_dict rearrangements stp = (rearrangements, stp)"
| "new_items_loop ((iid, newp) # rest) old_dict rearrangements stp =
     (case map_of old_dict iid of
        Some oldp \<Rightarrow>
          (if p_containerId oldp \<noteq> p_containerId newp \<or> position oldp \<noteq> position newp
           then new_items_loop rest old_dict
                  (rearrangements @
                    [\<lparr>s_step = stp, s_action = ''move'', s_itemId = iid,
                      fromContainer = p_containerId oldp, fromPosition = position oldp,
                      toContainer = p_containerId newp, toPosition = position newp\<rparr>])
                  (stp + 1)
           else new_items_loop rest old_dict rearrangements stp)
      | None \<Rightarrow>
          new_items_loop rest old_dict
            (rearrangements @
              [\<lparr>s_step = stp, s_action = ''place'', s_itemId = iid,
                fromContainer = ''NONE'', fromPosition = zero_position,
                toContainer = p_containerId newp, toPosition = position newp\<rparr>])
            (stp + 1))"

fun old_items_loop ::
  "(string \<times> placement) list \<Rightarrow> (string \<times> placement) list \<Rightarrow> rearrangement list \<Rightarrow> int
     \<Rightarrow> rearrangement list \<times> int" where
  "old_items_loop [] new_dict rearrangements stp = (rearrangements, stp)"
| "old_items_loop ((iid, oldp) # rest) new_dict rearrangements stp =
     (if map_of new_dict iid = None
      then old_items_loop rest new_dict
             (rearrangements @
               [\<lparr>s_step = stp, s_action = ''remove'', s_itemId = iid,
                 fromContainer = p_containerId oldp, fromPosition = position oldp,
                 toContainer = ''NONE'', toPosition = zero_position\<rparr>])
             (stp + 1)
      else old_items_loop rest new_dict rearrangements stp)"

definition generate_rearrangements :: "placement list \<Rightarrow> placement list \<Rightarrow> rearrangement list" where
  "generate_rearrangements old_placements new_placements =
     (let old_dict = placement_dict old_placements;
          new_dict = placement_dict new_placements;
          (rearrangements1, step1) = new_items_loop new_dict old_dict [] 1;
          (rearrangements2, step2) = old_items_loop old_dict new_dict rearrangements1 step1
      in rearrangements2)"

section \<open>The retrieval steps of \<^verbatim>\<open>search_item\<close>\<close>

text \<open>
  Lines 332-376 of \<^verbatim>\<open>search_item\<close> compute the list \<^verbatim>\<open>retrieval_steps\<close> from the
  target placement and the placement list read from \<^verbatim>\<open>placement.json\<close>.
  \<open>start_depth\<close> is \<^verbatim>\<open>p["position"]["startCoordinates"].get("depth", 0)\<close> and
  \<open>display_name\<close> is \<^verbatim>\<open>p.get("name") or p.get("itemName") or "Unknown"\<close>, where the
  empty string is as false as \<^verbatim>\<open>None\<close>.
\<close>

record retrieval_step =
  rs_step :: int
  rs_action :: string
  placeBack :: bool
  rs_itemId :: string
  rs_itemName :: string

definition start_depth :: "placement \<Rightarrow> int" where
  "start_depth p =
     (case co_depth (startCoordinates (position p)) of None \<Rightarrow> 0 | Some d \<Rightarrow> d)"

definition display_name :: "placement \<Rightarrow> string" where
  "display_name p =
     (case name p of
        Some (c # cs) \<Rightarrow> c # cs
      | _ \<Rightarrow> (case itemName p of Some (c # cs) \<Rightarrow> c # cs | _ \<Rightarrow> ''Unknown''))"

fun blocking_loop :: "placement \<Rightarrow> placement list \<Rightarrow> placement list \<Rightarrow> placement list" where
  "blocking_loop target [] blocking_items = blocking_items"
| "blocking_loop target (p # ps) blocking_items =
     (let t_x = co_width (startCoordinates (position target));
          t_y = co_height (startCoordinates (position target));
          t_w = co_width (endCoordinates (position target)) - t_x;
          t_h = co_height (endCoordinates (position target)) - t_y
      in if p_containerId p = p_containerId target \<and> p_itemId p \<noteq> p_itemId target then
           (if start_depth p = 0 then
              (let p_x = co_width (startCoordinates (position p));
                   p_y = co_height (startCoordinates (position p));
                   p_w = co_width (endCoordinates (position p)) - p_x;
                   p_h = co_height (endCoordinates (position p)) - p_y
               in if p_x < t_x + t_w \<and> p_x + p_w > t_x \<and> p_y < t_y + t_h \<and> p_y + p_h > t_y
                  then blocking_loop target ps (blocking_items @ [p])
                  else blocking_loop target ps blocking_items)
            else blocking_loop target ps blocking_items)
         else blocking_loop target ps blocking_items)"

fun remove_steps_loop ::
  "placement list \<Rightarrow> retrieval_step list \<Rightarrow> int \<Rightarrow> retrieval_step list \<times> int" where
  "remove_steps_loop [] steps stp = (steps, stp)"
| "remove_steps_loop (block # blocks) steps stp =
     remove_steps_loop blocks
       (steps @ [\<lparr>rs_step = stp, rs_action = ''remove'', placeBack = True,
                  rs_itemId = p_itemId block, rs_itemName = display_name block\<rparr>])
       (stp + 1)"

definition retrieval_steps :: "placement \<Rightarrow> placement list \<Rightarrow> retrieval_step list" where
  "retrieval_steps target placements =
     (let found_name = display_name target
      in if start_depth target = 0 then
           [\<lparr>rs_step = 0, rs_action = ''retrieve'', placeBack = False,
             rs_itemId = p_itemId target, rs_itemName = found_name\<rparr>]
         else
           (let blocking_items = blocking_loop target placements [];
                (steps, stp) = remove_steps_loop blocking_items [] 1
            in steps @ [\<lparr>rs_step = stp, rs_action = ''retrieve'', placeBack = False,
                         rs_itemId = p_itemId target, rs_itemName = found_name\<rparr>]))"

section \<open>Geometry of the statements\<close>

text \<open>
  The footprint of a placement is its rectangle in the (width, height) plane. Two
  rectangles overlap when the four strict inequalities of the retrieval planner hold.
  Coordinates are integers, so a rectangle is made of unit cells: the cell \<open>(cx, cy)\<close>
  is the square from \<open>(cx, cy)\<close> to \<open>(cx + 1, cy + 1)\<close>, and a rectangle covers it
  when the cell lies inside the rectangle.
\<close>

definition footprint :: "placement \<Rightarrow> rect" where
  "footprint p =
     \<lparr>r_x = co_width (startCoordinates (position p)),
      r_y = co_height (startCoordinates (position p)),
      r_w = co_width (endCoordinates (position p)) - co_width (startCoordinates (position p)),
      r_h = co_height (endCoordinates (position p)) - co_height (startCoordinates (position p))\<rparr>"

definition overlaps :: "rect \<Rightarrow> rect \<Rightarrow> bool" where
  "overlaps a b \<longleftrightarrow>
     r_x a < r_x b + r_w b \<and> r_x a + r_w a > r_x b \<and>
     r_y a < r_y b + r_h b \<and> r_y a + r_h a > r_y b"


definition area :: "rect \<Rightarrow> int" where
  "area r = r_w r * r_h r"


text \<open>
  \<open>number_from n mks\<close> numbers a list of steps sequentially from \<open>n\<close>: each element
  of \<open>mks\<close> is a step still waiting for its number.
\<close>

fun number_from :: "int \<Rightarrow> (int \<Rightarrow> 'a) list \<Rightarrow> 'a list" where
  "number_from n [] = []"
| "number_from n (mk # mks) = mk n # number_from (n + 1) mks"













section \<open>Example inputs\<close>

definition placement_at ::
  "string \<Rightarrow> string \<Rightarrow> int \<times> int \<times> int \<Rightarrow> int \<times> int \<times> int \<Rightarrow> placement" where
  "placement_at cid iid lo hi =
     \<lparr>p_containerId = cid, p_itemId = iid,
      position =
        \<lparr>startCoordinates = \<lparr>co_width = fst lo, co_depth = Some (fst (snd lo)),
                             co_height = snd (snd lo)\<rparr>,
         endCoordinates = \<lparr>co_width = fst hi, co_depth = Some (fst (snd hi)),
                           co_height = snd (snd hi)\<rparr>\<rparr>,
      name = None, itemName = None\<rparr>"

text \<open>
  The example of the specification: one container of zone \<open>Z\<close> and two items that
  prefer it.
\<close>

definition example_world :: world where
  "example_world = \<lparr>LOGS = [], logs_json = None, utcnow = (\<lambda>n. ''2025-01-01T00:00:00''), reads = 0\<rparr>"

definition example_data :: alloc_data where
  "example_data =
     \<lparr>d_items = Some
        [\<lparr>itemId = ''A'', width = 30, height = 40, depth = 20, preferredZone = ''Z'',
          priority = Some 5\<rparr>,
         \<lparr>itemId = ''B'', width = 50, height = 50, depth = 10, preferredZone = ''Z'',
          priority = Some 3\<rparr>],
      d_containers = Some
        [\<lparr>containerId = ''C'', zone = ''Z'', cwidth = 100, cheight = 100, cdepth = 50\<rparr>]\<rparr>"

section \<open>Orientation selection\<close>

lemma all_less_3: "(\<forall>j<(3::nat). P j) \<longleftrightarrow> P 0 \<and> P (Suc 0) \<and> P (Suc (Suc 0))"
  by (auto simp: numeral_3_eq_3 less_Suc_eq)

lemma ex_less_3: "(\<exists>j<(3::nat). P j) \<longleftrightarrow> P 0 \<or> P (Suc 0) \<or> P (Suc (Suc 0))"
  by (auto simp: numeral_3_eq_3 less_Suc_eq)

text \<open>
  Claim C3. \<^verbatim>\<open>get_best_orientation\<close> considers the three candidates footprint
  \<open>w \<times> h\<close> with depth \<open>d\<close>, footprint \<open>w \<times> d\<close> with depth \<open>h\<close> and footprint
  \<open>h \<times> d\<close> with depth \<open>w\<close>, in this order. It returns \<open>None\<close> exactly when all three
  depths exceed the container depth \<open>D\<close>. Otherwise it returns a candidate whose depth
  is at most \<open>D\<close>, whose footprint area is least among the candidates of depth at most
  \<open>D\<close>, and strictly less than the area of every such candidate listed before it.
\<close>

theorem get_best_orientation_spec:
  "(get_best_orientation it D = None \<longleftrightarrow> D < depth it \<and> D < height it \<and> D < width it) \<and>
   (\<forall>res. get_best_orientation it D = Some res \<longrightarrow>
      (\<exists>i<3.
         res = [(width it, height it, depth it), (width it, depth it, height it),
                (height it, depth it, width it)] ! i \<and>
         [depth it, height it, width it] ! i \<le> D \<and>
         (\<forall>j<3. [depth it, height it, width it] ! j \<le> D \<longrightarrow>
            [width it * height it, width it * depth it, height it * depth it] ! i
              \<le> [width it * height it, width it * depth it, height it * depth it] ! j) \<and>
         (\<forall>j<i. [depth it, height it, width it] ! j \<le> D \<longrightarrow>
            [width it * height it, width it * depth it, height it * depth it] ! i
              < [width it * height it, width it * depth it, height it * depth it] ! j)))"
  unfolding get_best_orientation_def Let_def all_less_3 ex_less_3
  by (auto simp: less_Suc_eq)

theorem get_best_orientation_spec_witness:
  "get_best_orientation
     \<lparr>itemId = ''A'', width = 30, height = 40, depth = 20, preferredZone = ''Z'',
      priority = Some 5\<rparr> 50 = Some (30, 20, 40) \<and>
   (\<exists>i<3. (30 :: int, 20 :: int, 40 :: int) = [(30, 40, 20), (30, 20, 40), (40, 20, 30)] ! i \<and>
      [20, 40, 30 :: int] ! i \<le> 50 \<and>
      (\<forall>j<3. [20, 40, 30 :: int] ! j \<le> 50 \<longrightarrow>
         [30 * 40, 30 * 20, 40 * 20 :: int] ! i \<le> [30 * 40, 30 * 20, 40 * 20] ! j) \<and>
      (\<forall>j<i. [20, 40, 30 :: int] ! j \<le> 50 \<longrightarrow>
         [30 * 40, 30 * 20, 40 * 20 :: int] ! i < [30 * 40, 30 * 20, 40 * 20] ! j))"
proof -
  let ?A = "\<lparr>itemId = ''A'', width = 30, height = 40, depth = 20, preferredZone = ''Z'',
      priority = Some 5\<rparr>"
  have e: "get_best_orientation ?A 50 = Some (30, 20, 40)"
    by (simp add: get_best_orientation_def)
  from get_best_orientation_spec[of ?A 50] e
  have "\<exists>i<3. (30, 20, 40) = [(width ?A, height ?A, depth ?A), (width ?A, depth ?A, height ?A),
                (height ?A, depth ?A, width ?A)] ! i \<and>
         [depth ?A, height ?A, width ?A] ! i \<le> 50 \<and>
         (\<forall>j<3. [depth ?A, height ?A, width ?A] ! j \<le> 50 \<longrightarrow>
            [width ?A * height ?A, width ?A * depth ?A, height ?A * depth ?A] ! i
              \<le> [width ?A * height ?A, width ?A * depth ?A, height ?A * depth ?A] ! j) \<and>
         (\<forall>j<i. [depth ?A, height ?A, width ?A] ! j \<le> 50 \<longrightarrow>
            [width ?A * height ?A, width ?A * depth ?A, height ?A * depth ?A] ! i
              < [width ?A * height ?A, width ?A * depth ?A, height ?A * depth ?A] ! j)"
    by blast
  with e show ?thesis by simp
qed

section \<open>Best-fit search\<close>








section \<open>Pruning\<close>

lemma contained_loop_iff:
  "contained_loop r1 i ys \<longleftrightarrow>
     (\<exists>(j, r2)\<in>set ys. i \<noteq> j \<and> r_x r1 \<ge> r_x r2 \<and> r_y r1 \<ge> r_y r2 \<and>
          r_x r1 + r_w r1 \<le> r_x r2 + r_w r2 \<and> r_y r1 + r_h r1 \<le> r_y r2 + r_h r2)"
  by (induction ys) auto

lemma prune_loop_filter:
  "prune_loop xs frs pruned =
     pruned @ map snd (filter (\<lambda>(i, r). \<not> contained_loop r i frs) xs)"
  by (induction xs arbitrary: pruned) auto

lemma prune_free_rectangles_filter:
  "prune_free_rectangles frs =
     map snd (filter (\<lambda>(i, r). \<not> contained_loop r i (enumerate 0 frs)) (enumerate 0 frs))"
  by (simp add: prune_free_rectangles_def prune_loop_filter)

lemma prune_survivors:
  assumes "i < length (prune_free_rectangles frs)" "j < length (prune_free_rectangles frs)"
    "i \<noteq> j"
  shows "\<exists>a b. a < length frs \<and> b < length frs \<and> a \<noteq> b \<and>
           prune_free_rectangles frs ! i = frs ! a \<and> prune_free_rectangles frs ! j = frs ! b \<and>
           \<not> contained_loop (frs ! a) a (enumerate 0 frs) \<and>
           \<not> contained_loop (frs ! b) b (enumerate 0 frs)"
proof -
  define fl where "fl = filter (\<lambda>(i, r). \<not> contained_loop r i (enumerate 0 frs)) (enumerate 0 frs)"
  have out: "prune_free_rectangles frs = map snd fl"
    by (simp add: fl_def prune_free_rectangles_filter)
  from assms out have ij: "i < length fl" "j < length fl" by simp_all
  have "distinct (map fst (enumerate 0 frs))" by simp
  then have "distinct (map fst fl)" unfolding fl_def by (rule distinct_map_filter)
  with ij assms(3) have ne: "fst (fl ! i) \<noteq> fst (fl ! j)"
    by (metis length_map nth_eq_iff_index_eq nth_map)
  have mem: "fl ! k \<in> set (enumerate 0 frs) \<and> \<not> contained_loop (snd (fl ! k)) (fst (fl ! k)) (enumerate 0 frs)"
    if "k < length fl" for k
  proof -
    from that have "fl ! k \<in> set fl" by simp
    then show ?thesis unfolding fl_def by auto
  qed
  have nth: "fst (fl ! k) < length frs \<and> snd (fl ! k) = frs ! fst (fl ! k)" if "k < length fl" for k
    using mem[OF that] by (cases "fl ! k") (auto simp: in_set_enumerate_eq)
  show ?thesis
    apply (rule exI[of _ "fst (fl ! i)"])
    apply (rule exI[of _ "fst (fl ! j)"])
    using ne nth[OF ij(1)] nth[OF ij(2)] mem[OF ij(1)] mem[OF ij(2)] ij
    by (simp add: out)
qed

text \<open>
  Claim C7. No rectangle of the output of \<^verbatim>\<open>prune_free_rectangles\<close> is contained in
  the rectangle at another position of the output, where containment is that all four
  edges lie inside or on the edges of the other rectangle.
\<close>

theorem prune_free_rectangles_antichain:
  "\<forall>i<length (prune_free_rectangles frs). \<forall>j<length (prune_free_rectangles frs).
     i \<noteq> j \<longrightarrow>
     \<not> (r_x (prune_free_rectangles frs ! i) \<ge> r_x (prune_free_rectangles frs ! j) \<and>
        r_y (prune_free_rectangles frs ! i) \<ge> r_y (prune_free_rectangles frs ! j) \<and>
        r_x (prune_free_rectangles frs ! i) + r_w (prune_free_rectangles frs ! i)
          \<le> r_x (prune_free_rectangles frs ! j) + r_w (prune_free_rectangles frs ! j) \<and>
        r_y (prune_free_rectangles frs ! i) + r_h (prune_free_rectangles frs ! i)
          \<le> r_y (prune_free_rectangles frs ! j) + r_h (prune_free_rectangles frs ! j))"
proof (intro allI impI)
  fix i j
  assume ij: "i < length (prune_free_rectangles frs)" "j < length (prune_free_rectangles frs)"
    "i \<noteq> j"
  from prune_survivors[OF ij] obtain a b where ab: "a < length frs" "b < length frs" "a \<noteq> b"
    "prune_free_rectangles frs ! i = frs ! a" "prune_free_rectangles frs ! j = frs ! b"
    "\<not> contained_loop (frs ! a) a (enumerate 0 frs)"
    by blast
  from ab(2) have "(b, frs ! b) \<in> set (enumerate 0 frs)"
    by (simp add: in_set_enumerate_eq)
  with ab(6) ab(3) show "\<not> (r_x (prune_free_rectangles frs ! i) \<ge> r_x (prune_free_rectangles frs ! j) \<and>
        r_y (prune_free_rectangles frs ! i) \<ge> r_y (prune_free_rectangles frs ! j) \<and>
        r_x (prune_free_rectangles frs ! i) + r_w (prune_free_rectangles frs ! i)
          \<le> r_x (prune_free_rectangles frs ! j) + r_w (prune_free_rectangles frs ! j) \<and>
        r_y (prune_free_rectangles frs ! i) + r_h (prune_free_rectangles frs ! i)
          \<le> r_y (prune_free_rectangles frs ! j) + r_h (prune_free_rectangles frs ! j))"
    unfolding ab(4,5) contained_loop_iff by blast
qed

theorem prune_free_rectangles_antichain_witness:
  "prune_free_rectangles
     [\<lparr>r_x = 0, r_y = 0, r_w = 10, r_h = 10\<rparr>, \<lparr>r_x = 2, r_y = 2, r_w = 3, r_h = 3\<rparr>,
      \<lparr>r_x = 5, r_y = 5, r_w = 10, r_h = 10\<rparr>]
     = [\<lparr>r_x = 0, r_y = 0, r_w = 10, r_h = 10\<rparr>, \<lparr>r_x = 5, r_y = 5, r_w = 10, r_h = 10\<rparr>] \<and>
   \<not> ((0::int) \<ge> 5 \<and> (0::int) \<ge> 5 \<and> (0::int) + 10 \<le> 5 + 10 \<and> (0::int) + 10 \<le> 5 + 10)"
proof -
  let ?frs = "[\<lparr>r_x = 0, r_y = 0, r_w = 10, r_h = 10\<rparr>, \<lparr>r_x = 2, r_y = 2, r_w = 3, r_h = 3\<rparr>,
      \<lparr>r_x = 5, r_y = 5, r_w = 10, r_h = 10\<rparr>]"
  have e: "prune_free_rectangles ?frs
     = [\<lparr>r_x = 0, r_y = 0, r_w = 10, r_h = 10\<rparr>, \<lparr>r_x = 5, r_y = 5, r_w = 10, r_h = 10\<rparr>]"
    by (simp add: prune_free_rectangles_def enumerate_eq_zip upt_rec)
  from prune_free_rectangles_antichain[of ?frs, rule_format, of 0 1]
  show ?thesis unfolding e by simp
qed

section \<open>Retrieval steps\<close>

lemma number_from_append:
  "number_from n (xs @ ys) = number_from n xs @ number_from (n + int (length xs)) ys"
  by (induction xs arbitrary: n) (auto simp: add.assoc)

lemma blocking_loop_filter:
  "blocking_loop target ps acc =
     acc @ filter (\<lambda>p. p_containerId p = p_containerId target \<and> p_itemId p \<noteq> p_itemId target \<and>
                        start_depth p = 0 \<and> overlaps (footprint p) (footprint target)) ps"
  by (induction ps arbitrary: acc) (auto simp: Let_def overlaps_def footprint_def)

lemma remove_steps_loop_number:
  "remove_steps_loop blocks steps stp =
     (steps @ number_from stp
        (map (\<lambda>b n. \<lparr>rs_step = n, rs_action = ''remove'', placeBack = True,
                       rs_itemId = p_itemId b, rs_itemName = display_name b\<rparr>) blocks),
      stp + int (length blocks))"
  by (induction blocks arbitrary: steps stp) auto

text \<open>
  Claim C5. When the target's start depth is 0 the retrieval steps are the single
  step \<^verbatim>\<open>retrieve\<close>. Otherwise they are one \<^verbatim>\<open>remove\<close> step, flagged
  \<^verbatim>\<open>placeBack\<close>, for each placement of the list that is in the target's container, has
  another item identifier, has start depth 0 and whose footprint overlaps the target's
  (the four strict inequalities, so that touching edges do not block), in the order of
  the list, followed by one \<^verbatim>\<open>retrieve\<close> step for the target; these steps are
  numbered from 1.
\<close>

theorem retrieval_steps_spec:
  "(start_depth target = 0 \<longrightarrow>
      retrieval_steps target placements =
        [\<lparr>rs_step = 0, rs_action = ''retrieve'', placeBack = False,
          rs_itemId = p_itemId target, rs_itemName = display_name target\<rparr>]) \<and>
   (start_depth target \<noteq> 0 \<longrightarrow>
      retrieval_steps target placements =
        number_from 1
          (map (\<lambda>b n. \<lparr>rs_step = n, rs_action = ''remove'', placeBack = True,
                         rs_itemId = p_itemId b, rs_itemName = display_name b\<rparr>)
             (filter (\<lambda>p. p_containerId p = p_containerId target \<and>
                           p_itemId p \<noteq> p_itemId target \<and> start_depth p = 0 \<and>
                           overlaps (footprint p) (footprint target)) placements)
           @ [\<lambda>n. \<lparr>rs_step = n, rs_action = ''retrieve'', placeBack = False,
                     rs_itemId = p_itemId target, rs_itemName = display_name target\<rparr>]))"
  by (simp add: retrieval_steps_def Let_def blocking_loop_filter remove_steps_loop_number
      number_from_append)

theorem retrieval_steps_spec_witness:
  "retrieval_steps (placement_at ''C'' ''P'' (10, 0, 10) (30, 10, 30))
     [placement_at ''C'' ''P'' (10, 0, 10) (30, 10, 30),
      placement_at ''C'' ''T'' (0, 10, 0) (20, 20, 20)]
     = [\<lparr>rs_step = 0, rs_action = ''retrieve'', placeBack = False, rs_itemId = ''P'',
         rs_itemName = ''Unknown''\<rparr>] \<and>
   retrieval_steps (placement_at ''C'' ''T'' (0, 10, 0) (20, 20, 20))
     [placement_at ''C'' ''P'' (10, 0, 10) (30, 10, 30),
      placement_at ''C'' ''T'' (0, 10, 0) (20, 20, 20),
      placement_at ''C'' ''Q'' (20, 0, 0) (30, 10, 30),
      placement_at ''D'' ''R'' (0, 0, 0) (30, 10, 30),
      placement_at ''C'' ''S'' (0, 0, 0) (5, 10, 5)]
     = [\<lparr>rs_step = 1, rs_action = ''remove'', placeBack = True, rs_itemId = ''P'',
         rs_itemName = ''Unknown''\<rparr>,
        \<lparr>rs_step = 2, rs_action = ''remove'', placeBack = True, rs_itemId = ''S'',
         rs_itemName = ''Unknown''\<rparr>,
        \<lparr>rs_step = 3, rs_action = ''retrieve'', placeBack = False, rs_itemId = ''T'',
         rs_itemName = ''Unknown''\<rparr>]"
  using
    retrieval_steps_spec[of "placement_at ''C'' ''P'' (10, 0, 10) (30, 10, 30)"
      "[placement_at ''C'' ''P'' (10, 0, 10) (30, 10, 30),
        placement_at ''C'' ''T'' (0, 10, 0) (20, 20, 20)]"]
    retrieval_steps_spec[of "placement_at ''C'' ''T'' (0, 10, 0) (20, 20, 20)"
      "[placement_at ''C'' ''P'' (10, 0, 10) (30, 10, 30),
        placement_at ''C'' ''T'' (0, 10, 0) (20, 20, 20),
        placement_at ''C'' ''Q'' (20, 0, 0) (30, 10, 30),
        placement_at ''D'' ''R'' (0, 0, 0) (30, 10, 30),
        placement_at ''C'' ''S'' (0, 0, 0) (5, 10, 5)]"]
  by (simp add: placement_at_def start_depth_def display_name_def overlaps_def footprint_def)

section \<open>Rearrangements\<close>

lemma dict_set_fresh: "k \<notin> fst ` set d \<Longrightarrow> dict_set d k v = d @ [(k, v)]"
  by (induction d) auto

lemma placement_dict_acc:
  "distinct (map fst d @ map p_itemId pls) \<Longrightarrow>
   foldl (\<lambda>d p. dict_set d (p_itemId p) p) d pls = d @ map (\<lambda>p. (p_itemId p, p)) pls"
proof (induction pls arbitrary: d)
  case Nil
  then show ?case by simp
next
  case (Cons p pls)
  from Cons.prems have fresh: "p_itemId p \<notin> fst ` set d" by auto
  from Cons.prems have "distinct (map fst (d @ [(p_itemId p, p)]) @ map p_itemId pls)" by auto
  from Cons.IH[OF this] fresh show ?case by (simp add: dict_set_fresh)
qed

lemma placement_dict_distinct:
  "distinct (map p_itemId pls) \<Longrightarrow> placement_dict pls = map (\<lambda>p. (p_itemId p, p)) pls"
  using placement_dict_acc[of "[]" pls] by (simp add: placement_dict_def)

lemma map_of_keyed: "map_of (map (\<lambda>p. (f p, p)) xs) k = find (\<lambda>p. f p = k) xs"
  by (induction xs) auto

lemma new_items_loop_number:
  "new_items_loop (map (\<lambda>p. (p_itemId p, p)) new) old_dict rs stp =
     (let mks = concat (map (\<lambda>newp. case map_of old_dict (p_itemId newp) of
             None \<Rightarrow> [\<lambda>n. \<lparr>s_step = n, s_action = ''place'', s_itemId = p_itemId newp,
                             fromContainer = ''NONE'', fromPosition = zero_position,
                             toContainer = p_containerId newp, toPosition = position newp\<rparr>]
           | Some oldp \<Rightarrow>
               if p_containerId oldp \<noteq> p_containerId newp \<or> position oldp \<noteq> position newp
               then [\<lambda>n. \<lparr>s_step = n, s_action = ''move'', s_itemId = p_itemId newp,
                           fromContainer = p_containerId oldp, fromPosition = position oldp,
                           toContainer = p_containerId newp, toPosition = position newp\<rparr>]
               else []) new)
      in (rs @ number_from stp mks, stp + int (length mks)))"
  by (induction new arbitrary: rs stp) (auto simp: Let_def split: option.splits)

lemma old_items_loop_number:
  "old_items_loop (map (\<lambda>p. (p_itemId p, p)) old) new_dict rs stp =
     (let mks = map (\<lambda>oldp n. \<lparr>s_step = n, s_action = ''remove'', s_itemId = p_itemId oldp,
                 fromContainer = p_containerId oldp, fromPosition = position oldp,
                 toContainer = ''NONE'', toPosition = zero_position\<rparr>)
           (filter (\<lambda>oldp. p_itemId oldp \<notin> fst ` set new_dict) old)
      in (rs @ number_from stp mks, stp + int (length mks)))"
  by (induction old arbitrary: rs stp) (auto simp: Let_def map_of_eq_None_iff)

text \<open>
  Claim C6. For two snapshots with unique item identifiers, \<^verbatim>\<open>generate_rearrangements\<close>
  returns, numbered from 1: first, for the placements of the new snapshot in its order,
  a \<^verbatim>\<open>place\<close> step when the item is absent from the old snapshot, a \<^verbatim>\<open>move\<close> step
  from the old container and position to the new ones when the item is in both and the
  container or the position differs, and nothing when both are equal; then, for the
  placements of the old snapshot in its order whose item is absent from the new one, a
  \<^verbatim>\<open>remove\<close> step. Positions are compared by equality of their coordinates.
\<close>

theorem generate_rearrangements_spec:
  assumes "distinct (map p_itemId old_placements)" "distinct (map p_itemId new_placements)"
  shows "generate_rearrangements old_placements new_placements =
     number_from 1
       (concat (map (\<lambda>newp.
            case find (\<lambda>oldp. p_itemId oldp = p_itemId newp) old_placements of
              None \<Rightarrow> [\<lambda>n. \<lparr>s_step = n, s_action = ''place'', s_itemId = p_itemId newp,
                             fromContainer = ''NONE'', fromPosition = zero_position,
                             toContainer = p_containerId newp, toPosition = position newp\<rparr>]
            | Some oldp \<Rightarrow>
                if p_containerId oldp \<noteq> p_containerId newp \<or> position oldp \<noteq> position newp
                then [\<lambda>n. \<lparr>s_step = n, s_action = ''move'', s_itemId = p_itemId newp,
                            fromContainer = p_containerId oldp, fromPosition = position oldp,
                            toContainer = p_containerId newp, toPosition = position newp\<rparr>]
                else []) new_placements)
        @ map (\<lambda>oldp n. \<lparr>s_step = n, s_action = ''remove'', s_itemId = p_itemId oldp,
                 fromContainer = p_containerId oldp, fromPosition = position oldp,
                 toContainer = ''NONE'', toPosition = zero_position\<rparr>)
            (filter (\<lambda>oldp. p_itemId oldp \<notin> p_itemId ` set new_placements) old_placements))"
  unfolding generate_rearrangements_def Let_def
    placement_dict_distinct[OF assms(1)] placement_dict_distinct[OF assms(2)]
    new_items_loop_number old_items_loop_number
  by (simp add: number_from_append map_of_keyed image_image)

theorem generate_rearrangements_spec_witness:
  "map (\<lambda>r. (s_step r, s_action r, s_itemId r, fromContainer r, toContainer r))
     (generate_rearrangements
        [placement_at ''C'' ''T'' (0, 10, 0) (20, 20, 20),
         placement_at ''C'' ''P'' (10, 0, 10) (30, 10, 30),
         placement_at ''C'' ''Q'' (20, 0, 0) (30, 10, 30)]
        [placement_at ''C'' ''N'' (0, 10, 0) (20, 20, 20),
         placement_at ''D'' ''P'' (10, 0, 10) (30, 10, 30),
         placement_at ''C'' ''T'' (0, 10, 0) (20, 20, 20)])
     = [(1, ''place'', ''N'', ''NONE'', ''C''), (2, ''move'', ''P'', ''C'', ''D''),
        (3, ''remove'', ''Q'', ''C'', ''NONE'')]"
  using generate_rearrangements_spec[of
      "[placement_at ''C'' ''T'' (0, 10, 0) (20, 20, 20),
        placement_at ''C'' ''P'' (10, 0, 10) (30, 10, 30),
        placement_at ''C'' ''Q'' (20, 0, 0) (30, 10, 30)]"
      "[placement_at ''C'' ''N'' (0, 10, 0) (20, 20, 20),
        placement_at ''D'' ''P'' (10, 0, 10) (30, 10, 30),
        placement_at ''C'' ''T'' (0, 10, 0) (20, 20, 20)]"]
  by (simp add: placement_at_def)

section \<open>The allocator on the example\<close>

lemma example_placements:
  "fst (place_items_optimally wld example_data) =
     ([placement_at ''C'' ''A'' (0, 0, 0) (30, 40, 20),
       placement_at ''C'' ''B'' (30, 0, 0) (80, 50, 10)], [])"
  by (simp add: place_items_optimally_def allocate_def example_data_def zone_to_items_of_def
      sort_by_priority_def container_face_data_of_def get_best_orientation_def
      find_position_for_rect_def make_placement_def update_free_rects_def
      split_free_rectangle_def prune_free_rectangles_def placement_at_def Let_def
      enumerate_eq_zip upt_rec)

text \<open>
  Claim C1, as the code has it. On the example the allocator places \<open>A\<close> first, at
  \<open>(0, 0)\<close>, in the feasible orientation of least footprint area: all three
  orientations are feasible at depth 50, and the least footprint is \<open>30 \<times> 20\<close> (area
  600) with depth 40. It then places \<open>B\<close> at \<open>(30, 0)\<close> with footprint \<open>50 \<times> 10\<close>
  and depth 50, and the two footprints do not overlap.
\<close>

theorem example_allocation:
  "fst (place_items_optimally wld example_data) =
     ([placement_at ''C'' ''A'' (0, 0, 0) (30, 40, 20),
       placement_at ''C'' ''B'' (30, 0, 0) (80, 50, 10)], []) \<and>
   get_best_orientation
     \<lparr>itemId = ''A'', width = 30, height = 40, depth = 20, preferredZone = ''Z'',
      priority = Some 5\<rparr> 50 = Some (30, 20, 40) \<and>
   footprint (placement_at ''C'' ''A'' (0, 0, 0) (30, 40, 20))
     = \<lparr>r_x = 0, r_y = 0, r_w = 30, r_h = 20\<rparr> \<and>
   footprint (placement_at ''C'' ''B'' (30, 0, 0) (80, 50, 10))
     = \<lparr>r_x = 30, r_y = 0, r_w = 50, r_h = 10\<rparr> \<and>
   \<not> overlaps (footprint (placement_at ''C'' ''A'' (0, 0, 0) (30, 40, 20)))
       (footprint (placement_at ''C'' ''B'' (30, 0, 0) (80, 50, 10)))"
  using example_placements[of wld]
  by (simp add: get_best_orientation_def footprint_def placement_at_def overlaps_def)

text \<open>
  The claim as the specification states it fails: the footprint of \<open>A\<close> has area 600,
  not \<open>30 * 40 = 1200\<close>, and its depth is 40, not 20.
\<close>

theorem example_allocation_counterexample:
  "fst (place_items_optimally example_world example_data) =
     ([placement_at ''C'' ''A'' (0, 0, 0) (30, 40, 20),
       placement_at ''C'' ''B'' (30, 0, 0) (80, 50, 10)], []) \<and>
   area (footprint (placement_at ''C'' ''A'' (0, 0, 0) (30, 40, 20))) = 600 \<and>
   area (footprint (placement_at ''C'' ''A'' (0, 0, 0) (30, 40, 20))) \<noteq> 30 * 40 \<and>
   co_depth (endCoordinates (position (placement_at ''C'' ''A'' (0, 0, 0) (30, 40, 20))))
     \<noteq> Some 20"
  using example_placements[of example_world]
  by (simp add: footprint_def placement_at_def area_def)

section \<open>The allocator and the world\<close>





section \<open>Items without a priority\<close>












section \<open>Splitting a free rectangle\<close>












section \<open>Pruning keeps the maximal rectangles\<close>














section \<open>The invariant of a container face\<close>











section \<open>The allocator keeps the face invariant\<close>





















end
